theory Spec2Isabelle
  imports Complex_Main
begin

section \<open>Python values and exceptions\<close>

text \<open>
  The exceptions the modelled code can raise; \<open>LibraryError\<close> stands for whatever a
  call into the SDK, OpenCV or Redis raises. A function that may raise returns the
  exception as a value next to the state it leaves behind, because the attributes of a
  Python object keep whatever was assigned before the \<^verbatim>\<open>raise\<close>.
\<close>

datatype error =
    TypeError string
  | AttributeError string
  | KeyError string
  | UnicodeDecodeError
  | QueueEmpty
  | ValueError
  | OverflowError
  | LibraryError string

section \<open>\<^verbatim>\<open>queue.Queue\<close>\<close>

text \<open>
  \<^verbatim>\<open>queue.Queue(maxsize)\<close>: a FIFO of items; \<^verbatim>\<open>maxsize <= 0\<close> means unbounded.
  \<^verbatim>\<open>put\<close> without timeout blocks while the queue is full and \<^verbatim>\<open>get\<close> without timeout
  blocks while it is empty: in a run with no other thread that never returns, which is
  the value \<open>None\<close> here.
\<close>

record 'a py_queue =
  maxsize :: int
  items :: "'a list"

definition Queue :: "int \<Rightarrow> 'a py_queue" where
  "Queue m = \<lparr>maxsize = m, items = []\<rparr>"

definition queue_qsize :: "'a py_queue \<Rightarrow> int" where
  "queue_qsize q = int (length (items q))"

definition queue_empty :: "'a py_queue \<Rightarrow> bool" where
  "queue_empty q = (items q = [])"

definition queue_full :: "'a py_queue \<Rightarrow> bool" where
  "queue_full q = (0 < maxsize q \<and> maxsize q \<le> queue_qsize q)"

definition queue_put :: "'a py_queue \<Rightarrow> 'a \<Rightarrow> 'a py_queue option" where
  "queue_put q x = (if queue_full q then None else Some (q\<lparr>items := items q @ [x]\<rparr>))"

definition queue_get :: "'a py_queue \<Rightarrow> ('a \<times> 'a py_queue) option" where
  "queue_get q = (case items q of [] \<Rightarrow> None | x # xs \<Rightarrow> Some (x, q\<lparr>items := xs\<rparr>))"

section \<open>\<^verbatim>\<open>rtsp_processing\<close>: the telemetry inbox\<close>

text \<open>
  An MQTT payload is a byte string; \<^verbatim>\<open>msg.payload.decode()\<close> either yields its text or
  raises \<^verbatim>\<open>UnicodeDecodeError\<close>.
\<close>

datatype mqtt_payload = Payload string | Undecodable

fun decode :: "mqtt_payload \<Rightarrow> error + string" where
  "decode (Payload s) = Inr s"
| "decode Undecodable = Inl UnicodeDecodeError"

text \<open>\<^verbatim>\<open>self.message_queue = queue.Queue(maxsize=50)\<close> of \<^verbatim>\<open>rtsp_processing.__init__\<close>.\<close>

definition message_queue_init :: "string py_queue" where
  "message_queue_init = Queue 50"

text \<open>
  \<^verbatim>\<open>rtsp_processing.on_message\<close>. The result is \<open>None\<close> when a queue call blocks, and
  otherwise the message queue after the call with the exception raised, if any. In the
  full branch the oldest item is already taken when \<^verbatim>\<open>decode\<close> raises.
\<close>

definition on_message :: "string py_queue \<Rightarrow> mqtt_payload \<Rightarrow> (string py_queue \<times> error option) option" where
  "on_message q msg =
     (if \<not> queue_full q then
        (case decode msg of
           Inl e \<Rightarrow> Some (q, Some e)
         | Inr s \<Rightarrow> (case queue_put q s of None \<Rightarrow> None | Some q' \<Rightarrow> Some (q', None)))
      else
        (case queue_get q of
           None \<Rightarrow> None
         | Some (_, q1) \<Rightarrow>
             (case decode msg of
                Inl e \<Rightarrow> Some (q1, Some e)
              | Inr s \<Rightarrow> (case queue_put q1 s of None \<Rightarrow> None | Some q' \<Rightarrow> Some (q', None)))))"

text \<open>
  The MQTT client thread calls \<^verbatim>\<open>on_message\<close> once per delivered message, in delivery
  order. The run stops at a call that blocks or raises.
\<close>

fun deliver :: "string py_queue \<Rightarrow> mqtt_payload list \<Rightarrow> (string py_queue \<times> error option) option" where
  "deliver q [] = Some (q, None)"
| "deliver q (m # ms) =
     (case on_message q m of
        None \<Rightarrow> None
      | Some (q', Some e) \<Rightarrow> Some (q', Some e)
      | Some (q', None) \<Rightarrow> deliver q' ms)"

section \<open>\<^verbatim>\<open>drone_utils\<close>: values, dictionaries and time\<close>

text \<open>
  A naive \<^verbatim>\<open>datetime\<close> has microsecond resolution: it is the count of microseconds
  from a fixed origin, and a \<^verbatim>\<open>timedelta\<close> a difference of two.
\<close>

type_synonym datetime = int
type_synonym timedelta = int

text \<open>
  \<^verbatim>\<open>strftime('%Y-%m-%d %H:%M:%S')\<close> prints the calendar fields down to the second and
  leaves the microseconds out: two datetimes print the same text exactly when they lie in
  the same whole second. The text is represented by that count of whole seconds.
\<close>

definition strftime :: "datetime \<Rightarrow> int" where
  "strftime t = t div 1000000"

text \<open>Rounding to the nearest integer, ties to the even one (\<^verbatim>\<open>round\<close>, \<^verbatim>\<open>np.rint\<close>).\<close>

definition rint :: "real \<Rightarrow> int" where
  "rint x =
     (let f = \<lfloor>x\<rfloor>; d = x - of_int f
      in if d < 1 / 2 then f else if 1 / 2 < d then f + 1 else if even f then f else f + 1)"

section \<open>Floats\<close>

text \<open>
  A Python \<^verbatim>\<open>float\<close> is an IEEE double: \<open>Finite m e\<close> is the number \<open>m \<cdot> 2\<^sup>e\<close> (a double has
  \<open>\<bar>m\<bar> < 2\<^sup>5\<^sup>3\<close>), and there are the infinities and NaN. \<^verbatim>\<open>float(os.getenv(...))\<close> can
  yield any of them.
\<close>

datatype pyfloat = Finite int int | Infinity | NaN

text \<open>\<^verbatim>\<open>int.bit_length\<close>\<close>

function bit_length :: "nat \<Rightarrow> nat" where
  "bit_length n = (if n = 0 then 0 else Suc (bit_length (n div 2)))"
  by pat_completeness auto
termination
  by (relation "measure (\<lambda>n. n)") auto

declare bit_length.simps [simp del]

text \<open>\<open>m / 2\<^sup>k\<close> rounded to the nearest integer, ties to the even one.\<close>

definition round_half_even_shift :: "int \<Rightarrow> nat \<Rightarrow> int" where
  "round_half_even_shift m k =
     (let q = m div 2 ^ k; r = m mod 2 ^ k
      in if 2 * r < 2 ^ k then q else if 2 ^ k < 2 * r then q + 1
         else if even q then q else q + 1)"

text \<open>
  The result of a float operation whose exact value is \<open>m \<cdot> 2\<^sup>e\<close>: the value rounded to 53
  significant bits, ties to even. (The products formed below are smaller than \<open>10\<^sup>6\<close> in
  magnitude, so there is no overflow; a result in the subnormal range is below \<open>2\<^sup>-\<^sup>1\<^sup>0\<^sup>0\<^sup>0\<close>
  either way.)
\<close>

definition nearest_double :: "int \<Rightarrow> int \<Rightarrow> int \<times> int" where
  "nearest_double m e =
     (let k = bit_length (nat \<bar>m\<bar>) - 53 in (round_half_even_shift m k, e + int k))"

text \<open>\<^verbatim>\<open>modf\<close>: the fractional part, as a float, and the integral part.\<close>

definition modf :: "int \<Rightarrow> int \<Rightarrow> (int \<times> int) \<times> int" where
  "modf m e =
     (if 0 \<le> e then ((0, 0), m * 2 ^ nat e)
      else (let d = 2 ^ nat (- e); i = sgn m * (\<bar>m\<bar> div d) in ((m - i * d, e), i)))"

definition float_value :: "int \<times> int \<Rightarrow> real" where
  "float_value x =
     (case x of (m, e) \<Rightarrow> if 0 \<le> e then of_int (m * 2 ^ nat e) else of_int m / 2 ^ nat (- e))"

text \<open>
  \<^verbatim>\<open>datetime.timedelta(seconds=x)\<close> for a float \<open>x\<close>, in microseconds. The integral part of
  \<open>x\<close> is converted exactly; the fractional part is multiplied by \<open>10\<^sup>6\<close> in float arithmetic
  and the sum is rounded to a whole microsecond, ties to even. An infinity raises
  \<^verbatim>\<open>OverflowError\<close> and NaN raises \<^verbatim>\<open>ValueError\<close> in the conversion to an integer, and a
  result of more than 999999999 days in magnitude raises \<^verbatim>\<open>OverflowError\<close>.
\<close>

definition timedelta_seconds :: "pyfloat \<Rightarrow> error + timedelta" where
  "timedelta_seconds x =
     (case x of
        NaN \<Rightarrow> Inl ValueError
      | Infinity \<Rightarrow> Inl OverflowError
      | Finite m e \<Rightarrow>
          (let ((fm, fe), intpart) = modf m e;
               usdouble = nearest_double (1000000 * fm) fe;
               us = intpart * 1000000 + rint (float_value usdouble)
           in if 999999999 < \<bar>us div 86400000000\<bar> then Inl OverflowError else Inr us))"

text \<open>
  The other floats of the module are read as the real numbers they denote. \<^verbatim>\<open>np.round(x, 4)\<close>
  is a call into numpy: the value it returns is carried as that call, \<open>Np_round x 4\<close>, and
  written to the payload as such.
\<close>

datatype pyval =
    Float real | Np_round real nat | Str string | Bool bool | Datetime datetime | Object string

text \<open>
  A dictionary keeps its items in insertion order. Only \<^verbatim>\<open>collections.OrderedDict\<close> has
  \<^verbatim>\<open>move_to_end\<close>; a \<^verbatim>\<open>{...}\<close> literal builds a plain \<^verbatim>\<open>dict\<close>, which has not.
\<close>

datatype pydict = Dict "(string \<times> pyval) list" | OrderedDict "(string \<times> pyval) list"

fun dict_items :: "pydict \<Rightarrow> (string \<times> pyval) list" where
  "dict_items (Dict kvs) = kvs"
| "dict_items (OrderedDict kvs) = kvs"

fun with_items :: "pydict \<Rightarrow> (string \<times> pyval) list \<Rightarrow> pydict" where
  "with_items (Dict _) kvs = Dict kvs"
| "with_items (OrderedDict _) kvs = OrderedDict kvs"

text \<open>\<^verbatim>\<open>d[k]\<close>\<close>

definition getitem :: "pydict \<Rightarrow> string \<Rightarrow> error + pyval" where
  "getitem d k = (case map_of (dict_items d) k of None \<Rightarrow> Inl (KeyError k) | Some v \<Rightarrow> Inr v)"

text \<open>\<^verbatim>\<open>d.update({k: v})\<close>: a present key keeps its place, a new one goes last.\<close>

fun update_items :: "(string \<times> pyval) list \<Rightarrow> string \<Rightarrow> pyval \<Rightarrow> (string \<times> pyval) list" where
  "update_items [] k v = [(k, v)]"
| "update_items ((k', v') # kvs) k v =
     (if k' = k then (k, v) # kvs else (k', v') # update_items kvs k v)"

definition dict_update :: "pydict \<Rightarrow> string \<Rightarrow> pyval \<Rightarrow> pydict" where
  "dict_update d k v = with_items d (update_items (dict_items d) k v)"

text \<open>\<^verbatim>\<open>d.move_to_end(k, last=False)\<close>\<close>

fun move_to_end_first :: "pydict \<Rightarrow> string \<Rightarrow> error + pydict" where
  "move_to_end_first (Dict kvs) k =
     Inl (AttributeError ''dict object has no attribute move_to_end'')"
| "move_to_end_first (OrderedDict kvs) k =
     (case map_of kvs k of
        None \<Rightarrow> Inl (KeyError k)
      | Some v \<Rightarrow> Inr (OrderedDict ((k, v) # filter (\<lambda>kv. fst kv \<noteq> k) kvs)))"

text \<open>
  \<^verbatim>\<open>json.dumps(d, default=self.json_serial)\<close>. The JSON text lists the items in the
  dictionary's order, so the payload is that list of rendered items. \<^verbatim>\<open>json_serial\<close>
  renders a datetime as its ISO text and answers \<^verbatim>\<open>None\<close> (JSON \<^verbatim>\<open>null\<close>) for any other
  object the encoder hands it.
\<close>

datatype json =
    JNumber real | JNp_round real nat | JString string | JBool bool | JIsoformat datetime | JNull

fun json_serial :: "pyval \<Rightarrow> json" where
  "json_serial (Datetime t) = JIsoformat t"
| "json_serial _ = JNull"

fun json_value :: "pyval \<Rightarrow> json" where
  "json_value (Float x) = JNumber x"
| "json_value (Np_round x decimals) = JNp_round x decimals"
| "json_value (Str s) = JString s"
| "json_value (Bool b) = JBool b"
| "json_value v = json_serial v"

definition json_dumps :: "pydict \<Rightarrow> (string \<times> json) list" where
  "json_dumps d = map (\<lambda>kv. (fst kv, json_value (snd kv))) (dict_items d)"

section \<open>\<^verbatim>\<open>drone_utils.position_register\<close>\<close>

text \<open>What the paho client is asked to do, in order.\<close>

datatype mqtt_action =
    Connect string int int
  | Publish string "(string \<times> json) list" int
  | Disconnect

record position_register =
  init_lat :: real
  init_long :: real
  last_update :: datetime
  broker_host :: string
  broker_keepalive :: int
  broker_port :: int
  telemetry_topic :: string
  camera_topic :: string
  mqtt_client :: "mqtt_action list"
  Ts :: pyfloat

text \<open>The states \<^verbatim>\<open>drone_obj.get_state\<close> answers with; their keys are fixed by the SDK.\<close>

record gps_location =
  latitude :: real
  longitude :: real
  altitude :: real

record attitude =
  roll :: real
  pitch :: real
  yaw :: real

record speed =
  speedX :: real
  speedY :: real
  speedZ :: real

text \<open>
  \<^verbatim>\<open>position_register.__init__\<close>: the first position (\<^verbatim>\<open>get_state\<close> raises when no
  position was received yet), the clock reading and the settings read from the
  environment.
\<close>

definition position_register_init ::
  "(error + gps_location) \<Rightarrow> datetime \<Rightarrow> string \<Rightarrow> int \<Rightarrow> string \<Rightarrow> string \<Rightarrow> pyfloat
     \<Rightarrow> error + position_register" where
  "position_register_init gps now host port ttopic ctopic sampling_time =
     (case gps of
        Inl e \<Rightarrow> Inl e
      | Inr g \<Rightarrow>
          Inr \<lparr>init_lat = latitude g, init_long = longitude g, last_update = now,
               broker_host = host, broker_keepalive = 60, broker_port = port,
               telemetry_topic = ttopic, camera_topic = ctopic, mqtt_client = [],
               Ts = sampling_time\<rparr>)"

text \<open>\<^verbatim>\<open>np.deg2rad\<close> and \<^verbatim>\<open>position_register.haversine\<close>, with floats read as real numbers.\<close>

definition deg2rad :: "real \<Rightarrow> real" where
  "deg2rad x = x * (pi / 180)"

definition haversine :: "position_register \<Rightarrow> real \<Rightarrow> real \<Rightarrow> real" where
  "haversine self curr_lat curr_long =
     (let r = 6371;
          d_lat = deg2rad curr_lat - deg2rad (init_lat self);
          d_long = deg2rad curr_long - deg2rad (init_long self);
          root_part = (sin (d_lat / 2))\<^sup>2
                      + cos (deg2rad (init_lat self)) * cos (deg2rad curr_lat) * (sin (d_long / 2))\<^sup>2;
          out_part = 2 * r * arcsin (sqrt root_part)
      in out_part * 1000)"

text \<open>
  \<^verbatim>\<open>position_register.mqtt_publisher\<close>; \<open>rc\<close> is what \<^verbatim>\<open>connect\<close> returns this time.
\<close>

definition mqtt_publisher ::
  "position_register \<Rightarrow> int \<Rightarrow> pydict \<Rightarrow> string \<Rightarrow> position_register \<times> error option" where
  "mqtt_publisher self rc event_message topic =
     (let self1 = self\<lparr>mqtt_client := mqtt_client self
                     @ [Connect (broker_host self) (broker_port self) (broker_keepalive self)]\<rparr>
      in if rc \<noteq> 0 then
           (self1, Some (TypeError ''[drone_utils] Could not connect to the MQTT broker!''))
         else
           (let payload = json_dumps event_message
            in (self1\<lparr>mqtt_client := mqtt_client self1 @ [Publish topic payload 1, Disconnect]\<rparr>,
                None)))"

text \<open>
  What one run of \<^verbatim>\<open>onEventChanged\<close> reads from outside: the four readings of
  \<^verbatim>\<open>datetime.datetime.now()\<close> in the order of the calls (lines 64, 77, 94 and 98), what
  \<^verbatim>\<open>get_state\<close> answers for each message (or raises), and what \<^verbatim>\<open>connect\<close> returns for
  the telemetry message and for the camera message.
\<close>

record env =
  now_curr :: datetime
  now_time :: datetime
  now_delta :: datetime
  now_last :: datetime
  att_state :: "error + attitude"
  pos_state :: "error + gps_location"
  speed_state :: "error + speed"
  camera_state :: "error + pydict"
  connect_telemetry :: int
  connect_camera :: int

text \<open>Lines 67 to 91: the two messages, or the exception raised while building them.\<close>

definition event_messages :: "env \<Rightarrow> error + (pydict \<times> pydict)" where
  "event_messages e =
     (case att_state e of Inl x \<Rightarrow> Inl x | Inr att_dict \<Rightarrow>
      case pos_state e of Inl x \<Rightarrow> Inl x | Inr pos_dict \<Rightarrow>
      case speed_state e of Inl x \<Rightarrow> Inl x | Inr speed_dict \<Rightarrow>
      let camera_dict =
            (case camera_state e of
               Inl _ \<Rightarrow> Dict [(''zoom'', Str []), (''active'', Bool False)]
             | Inr d \<Rightarrow> d)
      in case getitem camera_dict ''active'' of Inl x \<Rightarrow> Inl x | Inr active \<Rightarrow>
      let event_message =
            Dict [(''time'', Datetime (now_time e)),
                  (''latitude'', Float (latitude pos_dict)),
                  (''longitude'', Float (longitude pos_dict)),
                  (''altitude'', Float (altitude pos_dict)),
                  (''roll'', Np_round (roll att_dict) 4),
                  (''pitch'', Np_round (pitch att_dict) 4),
                  (''yaw'', Np_round (yaw att_dict) 4),
                  (''speedX'', Np_round (speedX speed_dict) 4),
                  (''speedY'', Np_round (speedY speed_dict) 4),
                  (''speedZ'', Np_round (speedZ speed_dict) 4),
                  (''camera_status'', active)]
      in case getitem event_message ''time'' of Inl x \<Rightarrow> Inl x | Inr t \<Rightarrow>
      case move_to_end_first (dict_update camera_dict ''time'' t) ''time'' of
        Inl x \<Rightarrow> Inl x
      | Inr camera_dict' \<Rightarrow> Inr (event_message, camera_dict'))"

text \<open>
  \<^verbatim>\<open>position_register.onEventChanged\<close>: the object after the call and the exception that
  left it, if any.
\<close>

definition onEventChanged :: "position_register \<Rightarrow> env \<Rightarrow> position_register \<times> error option" where
  "onEventChanged self e =
     (let curr_datetime_form = strftime (now_curr e);
          last_update_form = strftime (last_update self)
      in if curr_datetime_form \<noteq> last_update_form then
           (case event_messages e of
              Inl x \<Rightarrow> (self, Some x)
            | Inr (event_message, camera_dict) \<Rightarrow>
                (let delta_t = now_delta e - last_update self
                 in case timedelta_seconds (Ts self) of
                      Inl x \<Rightarrow> (self, Some x)
                    | Inr sampling_time \<Rightarrow>
                        if sampling_time \<le> delta_t then
                          (case mqtt_publisher self (connect_telemetry e) event_message
                                  (telemetry_topic self) of
                             (self1, Some x) \<Rightarrow> (self1, Some x)
                           | (self1, None) \<Rightarrow>
                               (case mqtt_publisher self1 (connect_camera e) camera_dict
                                       (camera_topic self1) of
                                  (self2, Some x) \<Rightarrow> (self2, Some x)
                                | (self2, None) \<Rightarrow>
                                    (self2\<lparr>last_update := now_last e\<rparr>, None)))
                        else (self, None)))
         else (self, None))"

text \<open>
  The SDK calls the listener once per event. The object carries its attributes from one
  call to the next, also past a call that raised.
\<close>

fun run_events :: "position_register \<Rightarrow> env list \<Rightarrow> position_register" where
  "run_events self [] = self"
| "run_events self (e # es) = run_events (fst (onEventChanged self e)) es"

text \<open>
  Observations on one call: it reached the broker (a \<^verbatim>\<open>connect\<close> at least was issued),
  and it went through the whole publishing block and returned.
\<close>

definition uses_broker :: "position_register \<Rightarrow> env \<Rightarrow> bool" where
  "uses_broker self e = (mqtt_client (fst (onEventChanged self e)) \<noteq> mqtt_client self)"



text \<open>An event handled so fast that every clock reading of the call is the instant \<open>t\<close>.\<close>

definition at_instant :: "datetime \<Rightarrow> env \<Rightarrow> env" where
  "at_instant t e = e\<lparr>now_curr := t, now_time := t, now_delta := t, now_last := t\<rparr>"

text \<open>The object as the \<open>i\<close>-th event of a run finds it (events are counted from 0).\<close>

definition state_before :: "position_register \<Rightarrow> env list \<Rightarrow> nat \<Rightarrow> position_register" where
  "state_before self es i = run_events self (take i es)"

text \<open>
  A register and an event to run the model on: the sampler was created at clock reading 0
  with \<open>Ts = 1.0\<close>; the drone hovers, its camera is initialised and the broker accepts
  every connection.
\<close>

definition hover_register :: position_register where
  "hover_register =
     \<lparr>init_lat = 38.7223, init_long = - 9.1393, last_update = 0,
      broker_host = ''localhost'', broker_keepalive = 60, broker_port = 1883,
      telemetry_topic = ''telemetry'', camera_topic = ''camera'', mqtt_client = [],
      Ts = Finite 1 0\<rparr>"

definition hover_env :: env where
  "hover_env =
     \<lparr>now_curr = 0, now_time = 0, now_delta = 0, now_last = 0,
      att_state = Inr \<lparr>roll = 0, pitch = 0, yaw = 0\<rparr>,
      pos_state = Inr \<lparr>latitude = 38.7223, longitude = - 9.1393, altitude = 2\<rparr>,
      speed_state = Inr \<lparr>speedX = 0, speedY = 0, speedZ = 0\<rparr>,
      camera_state = Inr (OrderedDict [(''zoom'', Object ''zoom''), (''active'', Bool True)]),
      connect_telemetry = 0, connect_camera = 0\<rparr>"


text \<open>
  The same event when the broker refuses the first connection, when it refuses the second
  one, and when the camera is not initialised yet (\<^verbatim>\<open>get_state\<close> raises).
\<close>

definition refused_env :: env where
  "refused_env = hover_env\<lparr>connect_telemetry := 1\<rparr>"


definition no_camera_env :: env where
  "no_camera_env = hover_env\<lparr>camera_state := Inl (LibraryError ''camera state is uninitialized'')\<rparr>"

text \<open>
  The haversine distance as the specification writes it, for angles in radians:
  \<open>d = 2 R asin (sqrt (sin\<^sup>2 (\<Delta>lat / 2) + cos lat\<^sub>0 cos lat sin\<^sup>2 (\<Delta>long / 2))) 1000\<close> metres with
  \<open>R = 6371\<close> km.
\<close>

definition haversine_formula :: "real \<Rightarrow> real \<Rightarrow> real \<Rightarrow> real \<Rightarrow> real" where
  "haversine_formula lat0 long0 lat long =
     2 * 6371 * arcsin (sqrt ((sin ((lat - lat0) / 2))\<^sup>2
                              + cos lat0 * cos lat * (sin ((long - long0) / 2))\<^sup>2)) * 1000"

text \<open>The two messages of an event of the hovering drone whose line 77 reads the clock at \<open>t\<close>.\<close>

definition hover_telemetry :: "datetime \<Rightarrow> pydict" where
  "hover_telemetry t =
     Dict [(''time'', Datetime t),
           (''latitude'', Float 38.7223), (''longitude'', Float (- 9.1393)),
           (''altitude'', Float 2),
           (''roll'', Np_round 0 4), (''pitch'', Np_round 0 4), (''yaw'', Np_round 0 4),
           (''speedX'', Np_round 0 4), (''speedY'', Np_round 0 4), (''speedZ'', Np_round 0 4),
           (''camera_status'', Bool True)]"

definition hover_camera :: "datetime \<Rightarrow> pydict" where
  "hover_camera t =
     OrderedDict [(''time'', Datetime t), (''zoom'', Object ''zoom''), (''active'', Bool True)]"

text \<open>What one call appends to the record of the client's actions when it publishes both messages.\<close>

definition both_published :: "position_register \<Rightarrow> pydict \<Rightarrow> pydict \<Rightarrow> mqtt_action list" where
  "both_published self tm cm =
     [Connect (broker_host self) (broker_port self) (broker_keepalive self),
      Publish (telemetry_topic self) (json_dumps tm) 1, Disconnect,
      Connect (broker_host self) (broker_port self) (broker_keepalive self),
      Publish (camera_topic self) (json_dumps cm) 1, Disconnect]"

section \<open>\<^verbatim>\<open>rtsp_utils.rtsp_processing\<close>: frames\<close>

text \<open>
  A video frame of the SDK is an object with a reference count; frames are named by
  numbers and the counts are kept in a store. Pictures are described by how they are
  made: \<^verbatim>\<open>to_ndarray\<close> of a frame, \<^verbatim>\<open>np.zeros\<close>, and \<^verbatim>\<open>cv2.putText\<close> on a picture. What
  travels on the Redis channel is a byte string: a JPEG made by \<^verbatim>\<open>cv2.imencode\<close>, or bytes
  that are no image.
\<close>

datatype picture = Frame nat | Zeros | PutText picture string

datatype relay_bytes = Jpg picture | Malformed

datatype stage = To_ndarray | Put_text | Imencode | Redis_publish

text \<open>
  \<^verbatim>\<open>self.frame_queue = queue.Queue()\<close> has no bound, so \<^verbatim>\<open>put_nowait\<close> never raises
  \<^verbatim>\<open>queue.Full\<close>: the queue is the list of the frames it holds, oldest first.
\<close>

record rtsp_processing =
  frame_queue :: "nat list"
  message_queue :: "string py_queue"
  refcount :: "nat \<Rightarrow> int"
  redis_client :: "(string \<times> relay_bytes) list"

definition ref :: "nat \<Rightarrow> rtsp_processing \<Rightarrow> rtsp_processing" where
  "ref f self = self\<lparr>refcount := (refcount self)(f := refcount self f + 1)\<rparr>"

definition unref :: "nat \<Rightarrow> rtsp_processing \<Rightarrow> rtsp_processing" where
  "unref f self = self\<lparr>refcount := (refcount self)(f := refcount self f - 1)\<rparr>"

text \<open>\<^verbatim>\<open>self.full_sigmund\<close>: the black picture with the text NO SIGNAL.\<close>

definition full_sigmund :: picture where
  "full_sigmund = PutText Zeros ''NO SIGNAL''"

text \<open>\<^verbatim>\<open>rtsp_processing.yuv_frame_cb\<close>\<close>

definition yuv_frame_cb :: "rtsp_processing \<Rightarrow> nat \<Rightarrow> rtsp_processing" where
  "yuv_frame_cb self yuv_frame =
     (let self1 = ref yuv_frame self
      in self1\<lparr>frame_queue := frame_queue self1 @ [yuv_frame]\<rparr>)"

text \<open>
  What happens around one iteration of the loop of \<^verbatim>\<open>yuv_frame_processing\<close>: the frames the
  SDK hands to \<^verbatim>\<open>yuv_frame_cb\<close> and the messages the MQTT client hands to \<^verbatim>\<open>on_message\<close>
  before the iteration reads the queues, what \<^verbatim>\<open>stream_flag_event.is_set()\<close> answers at
  line 73, and the library call of the iteration that raises, if one does.
\<close>

record tick =
  frames_in :: "nat list"
  telemetry_in :: "mqtt_payload list"
  is_set :: bool
  fails :: "stage option"

definition receive :: "string py_queue \<Rightarrow> mqtt_payload list \<Rightarrow> string py_queue" where
  "receive q ms = (case deliver q ms of None \<Rightarrow> q | Some (q', _) \<Rightarrow> q')"

definition arrive :: "rtsp_processing \<Rightarrow> tick \<Rightarrow> rtsp_processing" where
  "arrive self t =
     (foldl yuv_frame_cb self (frames_in t))
       \<lparr>message_queue := receive (message_queue self) (telemetry_in t)\<rparr>"

text \<open>
  How the loop stands when the ticks are used up: still running (with its local
  \<^verbatim>\<open>last_telemetry\<close>), returned because \<^verbatim>\<open>offline_flag\<close> was set, or left by an exception.
\<close>

datatype outcome = Running string | Returned | Raised error

text \<open>
  The loop of \<^verbatim>\<open>rtsp_processing.yuv_frame_processing\<close>, lines 67 to 87.
  \<^verbatim>\<open>get(timeout=0.1)\<close> takes the oldest frame or raises \<^verbatim>\<open>queue.Empty\<close>, on which the loop
  continues.
\<close>

fun yuv_frame_processing_loop ::
  "rtsp_processing \<Rightarrow> string \<Rightarrow> tick list \<Rightarrow> rtsp_processing \<times> outcome" where
  "yuv_frame_processing_loop self last_telemetry [] = (self, Running last_telemetry)"
| "yuv_frame_processing_loop self last_telemetry (t # ts) =
     (let self1 = arrive self t
      in case frame_queue self1 of
           [] \<Rightarrow> yuv_frame_processing_loop self1 last_telemetry ts
         | yuv_frame # rest \<Rightarrow>
             (let self2 = self1\<lparr>frame_queue := rest\<rparr>;
                  offline_flag = is_set t
              in if fails t = Some To_ndarray then (self2, Raised (LibraryError ''to_ndarray''))
                 else
                   (let curr_array = Frame yuv_frame;
                        (curr_telemetry, last_telemetry', self3) =
                          (if \<not> queue_empty (message_queue self2) then
                             (case queue_get (message_queue self2) of
                                None \<Rightarrow> (last_telemetry, last_telemetry, self2)
                              | Some (m, q) \<Rightarrow> (m, m, self2\<lparr>message_queue := q\<rparr>))
                           else (last_telemetry, last_telemetry, self2))
                    in if fails t = Some Put_text then (self3, Raised (LibraryError ''putText''))
                       else
                         (let curr_array' = PutText curr_array curr_telemetry
                          in if fails t = Some Imencode
                             then (self3, Raised (LibraryError ''imencode''))
                             else
                               (let buffer = Jpg curr_array'
                                in if fails t = Some Redis_publish
                                   then (self3, Raised (LibraryError ''publish''))
                                   else
                                     (let self4 = self3\<lparr>redis_client := redis_client self3
                                                    @ [(''frame_buffer'', buffer)]\<rparr>;
                                          self5 = unref yuv_frame self4
                                      in if offline_flag then (self5, Returned)
                                         else yuv_frame_processing_loop self5 last_telemetry' ts))))))"

text \<open>\<^verbatim>\<open>rtsp_processing.yuv_frame_processing\<close>\<close>

definition yuv_frame_processing :: "rtsp_processing \<Rightarrow> tick list \<Rightarrow> rtsp_processing \<times> outcome" where
  "yuv_frame_processing self ticks =
     yuv_frame_processing_loop self ''waiting telemetry data...'' ticks"

section \<open>\<^verbatim>\<open>rtsp_processing.flush_cb\<close>\<close>

datatype vdef = VDEF_I420 | VDEF_NV12

record stream =
  vdef_format :: vdef

text \<open>The loop of lines 92 and 93: while the queue is not empty, take a frame and release it.\<close>

function flush_loop :: "rtsp_processing \<Rightarrow> rtsp_processing" where
  "flush_loop self =
     (case frame_queue self of
        [] \<Rightarrow> self
      | yuv_frame # rest \<Rightarrow> flush_loop (unref yuv_frame (self\<lparr>frame_queue := rest\<rparr>)))"
  by pat_completeness auto
termination
  by (relation "measure (\<lambda>self. length (frame_queue self))") (auto simp: unref_def)

definition flush_cb :: "rtsp_processing \<Rightarrow> stream \<Rightarrow> rtsp_processing \<times> bool" where
  "flush_cb self stream =
     (if vdef_format stream \<noteq> VDEF_I420 then (self, True)
      else (flush_loop self, True))"

text \<open>
  \<^verbatim>\<open>flush_cb\<close> running while the SDK thread runs \<^verbatim>\<open>yuv_frame_cb\<close>. Each thread moves by
  one call at a time: \<^verbatim>\<open>flush_cb\<close> tests the format, tests \<^verbatim>\<open>empty()\<close>, calls \<^verbatim>\<open>get_nowait()\<close>
  (which raises \<^verbatim>\<open>queue.Empty\<close> on an empty queue) and \<^verbatim>\<open>unref()\<close>; \<^verbatim>\<open>yuv_frame_cb\<close> calls
  \<^verbatim>\<open>ref()\<close> and \<^verbatim>\<open>put_nowait()\<close>. A schedule says which thread moves next, and which frame the
  SDK thread brings when it starts a new callback.
\<close>

datatype flush_at = At_format | At_empty | At_get | At_unref nat | Flush_returned | Flush_raised

datatype cb_at = Cb_idle | Cb_put nat

record threads =
  shared :: rtsp_processing
  flush_thread :: flush_at
  sdk_thread :: cb_at

datatype move = Flush_moves | Sdk_moves nat

fun step :: "stream \<Rightarrow> threads \<Rightarrow> move \<Rightarrow> threads" where
  "step stream T Flush_moves =
     (case flush_thread T of
        At_format \<Rightarrow>
          (if vdef_format stream \<noteq> VDEF_I420 then T\<lparr>flush_thread := Flush_returned\<rparr>
           else T\<lparr>flush_thread := At_empty\<rparr>)
      | At_empty \<Rightarrow>
          (if frame_queue (shared T) = [] then T\<lparr>flush_thread := Flush_returned\<rparr>
           else T\<lparr>flush_thread := At_get\<rparr>)
      | At_get \<Rightarrow>
          (case frame_queue (shared T) of
             [] \<Rightarrow> T\<lparr>flush_thread := Flush_raised\<rparr>
           | yuv_frame # rest \<Rightarrow>
               T\<lparr>shared := (shared T)\<lparr>frame_queue := rest\<rparr>, flush_thread := At_unref yuv_frame\<rparr>)
      | At_unref yuv_frame \<Rightarrow>
          T\<lparr>shared := unref yuv_frame (shared T), flush_thread := At_empty\<rparr>
      | Flush_returned \<Rightarrow> T
      | Flush_raised \<Rightarrow> T)"
| "step stream T (Sdk_moves f) =
     (case sdk_thread T of
        Cb_idle \<Rightarrow> T\<lparr>shared := ref f (shared T), sdk_thread := Cb_put f\<rparr>
      | Cb_put yuv_frame \<Rightarrow>
          T\<lparr>shared := (shared T)\<lparr>frame_queue := frame_queue (shared T) @ [yuv_frame]\<rparr>,
            sdk_thread := Cb_idle\<rparr>)"

definition flush_start :: "rtsp_processing \<Rightarrow> threads" where
  "flush_start self = \<lparr>shared = self, flush_thread = At_format, sdk_thread = Cb_idle\<rparr>"

definition interleaved :: "stream \<Rightarrow> rtsp_processing \<Rightarrow> move list \<Rightarrow> threads" where
  "interleaved stream self schedule = foldl (step stream) (flush_start self) schedule"

text \<open>The references a thread holds on a frame it has in hand.\<close>

definition in_hand :: "threads \<Rightarrow> nat \<Rightarrow> int" where
  "in_hand T f =
     (if sdk_thread T = Cb_put f then 1 else 0) + (if flush_thread T = At_unref f then 1 else 0)"

section \<open>\<^verbatim>\<open>rtsp_processing.offline_mode\<close> and \<^verbatim>\<open>run_stream\<close>\<close>

text \<open>
  The loop of \<^verbatim>\<open>offline_mode\<close>, driven by the answers of \<^verbatim>\<open>stream_flag_event.is_set()\<close> in
  the order of the calls: the state, the answers not yet used, and whether the loop has
  returned.
\<close>

fun offline_mode_loop :: "rtsp_processing \<Rightarrow> bool list \<Rightarrow> rtsp_processing \<times> bool list \<times> bool" where
  "offline_mode_loop self [] = (self, [], False)"
| "offline_mode_loop self (b # bs) =
     (let offline_flag = b;
          buffer = Jpg full_sigmund;
          self1 = self\<lparr>redis_client := redis_client self @ [(''frame_buffer'', buffer)]\<rparr>
      in if offline_flag then offline_mode_loop self1 bs else (self1, bs, True))"

definition offline_mode :: "rtsp_processing \<Rightarrow> bool list \<Rightarrow> rtsp_processing \<times> bool list \<times> bool" where
  "offline_mode self bs =
     offline_mode_loop (self\<lparr>message_queue := (message_queue self)\<lparr>items := []\<rparr>\<rparr>) bs"

text \<open>
  \<^verbatim>\<open>run_stream\<close>, with the number of processing threads \<^verbatim>\<open>retrieve_frames\<close> has started:
  \<^verbatim>\<open>retrieve_frames\<close> starts the thread and returns at once.
\<close>

function run_stream :: "rtsp_processing \<Rightarrow> nat \<Rightarrow> bool list \<Rightarrow> rtsp_processing \<times> nat" where
  "run_stream self started [] = (self, started)"
| "run_stream self started (b # bs) =
     (if \<not> b then run_stream self (Suc started) bs
      else
        (case offline_mode self bs of
           (self1, bs1, returned) \<Rightarrow>
             if returned then run_stream self1 started bs1 else (self1, started)))"
  by pat_completeness auto
termination
proof -
  have len: "length (fst (snd (offline_mode_loop self bs))) \<le> length bs"
    for self :: rtsp_processing and bs
    by (induction bs arbitrary: self) (auto simp: Let_def le_SucI)
  have shorter: "length bs1 < Suc (length bs)"
    if "(self1, y) = offline_mode self bs" and "(bs1, returned) = y"
    for self self1 :: rtsp_processing and bs bs1 y and returned :: bool
  proof -
    from that have "bs1 = fst (snd (offline_mode_loop
        (self\<lparr>message_queue := (message_queue self)\<lparr>items := []\<rparr>\<rparr>) bs))"
      by (metis fst_conv snd_conv offline_mode_def)
    then show ?thesis
      using len [of "self\<lparr>message_queue := (message_queue self)\<lparr>items := []\<rparr>\<rparr>" bs]
      by simp
  qed
  show ?thesis
    by (relation "measure (\<lambda>(self, started, bs). length bs)") (auto intro: shorter)
qed

section \<open>Reference counts\<close>

text \<open>
  The references on a frame that the queue does not account for: the count of the frame
  less the number of times the queue holds it. \<^verbatim>\<open>yuv_frame_cb\<close> adds one reference and one
  entry, so this number is the count the frame had before it was enqueued, plus the
  references of whoever has taken it from the queue and not released it.
\<close>

definition held :: "rtsp_processing \<Rightarrow> nat \<Rightarrow> int" where
  "held self f = refcount self f - int (count_list (frame_queue self) f)"

text \<open>A picture made from a frame of the drone.\<close>

fun live :: "picture \<Rightarrow> bool" where
  "live (Frame f) = True"
| "live Zeros = False"
| "live (PutText p s) = live p"

section \<open>A feed to run the loops on\<close>

text \<open>
  \<^verbatim>\<open>rtsp_processing.__init__\<close>: both queues empty, nothing published; the counts of the
  frames are those the SDK gives them.
\<close>

definition rtsp_processing_init :: "(nat \<Rightarrow> int) \<Rightarrow> rtsp_processing" where
  "rtsp_processing_init counts =
     \<lparr>frame_queue = [], message_queue = message_queue_init, refcount = counts,
      redis_client = []\<rparr>"

definition live_feed :: rtsp_processing where
  "live_feed = rtsp_processing_init (\<lambda>f. 1)"

definition frame_tick :: "nat list \<Rightarrow> tick" where
  "frame_tick fs = \<lparr>frames_in = fs, telemetry_in = [], is_set = False, fails = None\<rparr>"

section \<open>Properties of the telemetry inbox\<close>

lemma on_message_text:
  assumes "0 < maxsize q" "queue_qsize q \<le> maxsize q"
  shows "on_message q (Payload s) =
           Some (q\<lparr>items := drop (length (items q @ [s]) - nat (maxsize q)) (items q @ [s])\<rparr>, None)"
proof (cases "queue_full q")
  case False
  with assms have "length (items q) < nat (maxsize q)"
    by (simp add: queue_full_def queue_qsize_def)
  with False show ?thesis
    by (simp add: on_message_def queue_put_def)
next
  case True
  with assms have len: "length (items q) = nat (maxsize q)"
    by (simp add: queue_full_def queue_qsize_def)
  with assms obtain x xs where xs: "items q = x # xs"
    by (cases "items q") auto
  have nf: "\<not> queue_full (q\<lparr>items := xs\<rparr>)"
    using len xs assms by (simp add: queue_full_def queue_qsize_def)
  from True xs len nf show ?thesis
    by (simp add: on_message_def queue_get_def queue_put_def)
qed

lemma drop_window:
  assumes "length xs \<le> m" "0 < m"
  shows "drop (length (drop (Suc (length xs) - m) (xs @ [s]) @ ss) - m)
              (drop (Suc (length xs) - m) (xs @ [s]) @ ss) =
         drop (Suc (length xs + length ss) - m) (xs @ s # ss)"
proof (cases "length xs < m")
  case True
  then show ?thesis by simp
next
  case False
  with assms have len: "length xs = m" by simp
  with assms obtain x xs' where xs: "xs = x # xs'" by (cases xs) auto
  with len have m: "m = Suc (length xs')" by simp
  show ?thesis unfolding xs m by simp
qed

lemma deliver_texts:
  assumes "0 < maxsize q" "queue_qsize q \<le> maxsize q"
  shows "deliver q (map Payload ss) =
           Some (q\<lparr>items := drop (length (items q @ ss) - nat (maxsize q)) (items q @ ss)\<rparr>, None)"
  using assms
proof (induction ss arbitrary: q)
  case Nil
  then show ?case by (simp add: queue_qsize_def)
next
  case (Cons s ss)
  let ?q' = "q\<lparr>items := drop (length (items q @ [s]) - nat (maxsize q)) (items q @ [s])\<rparr>"
  have step: "on_message q (Payload s) = Some (?q', None)"
    using Cons.prems by (rule on_message_text)
  have m: "0 < maxsize ?q'" "queue_qsize ?q' \<le> maxsize ?q'"
    using Cons.prems by (auto simp: queue_qsize_def)
  have "deliver ?q' (map Payload ss) =
          Some (?q'\<lparr>items := drop (length (items ?q' @ ss) - nat (maxsize ?q')) (items ?q' @ ss)\<rparr>, None)"
    using m by (rule Cons.IH)
  moreover have "drop (length (items ?q' @ ss) - nat (maxsize ?q')) (items ?q' @ ss) =
                 drop (length (items q @ s # ss) - nat (maxsize q)) (items q @ s # ss)"
    using Cons.prems drop_window [of "items q" "nat (maxsize q)" s ss]
    by (simp add: queue_qsize_def)
  ultimately show ?case using step by simp
qed

text \<open>
  C8. The telemetry inbox has capacity 50: delivering 51 messages to the initially empty
  inbox leaves exactly messages 2 to 51, in their delivery order; message 1 is dropped.
\<close>

theorem inbox_51_keeps_2_to_51:
  assumes "length ss = 51"
  shows "deliver message_queue_init (map Payload ss) =
           Some (message_queue_init\<lparr>items := tl ss\<rparr>, None)"
proof -
  have "deliver message_queue_init (map Payload ss) =
          Some (message_queue_init\<lparr>items := drop (length ss - 50) ss\<rparr>, None)"
    using deliver_texts [of message_queue_init ss]
    by (simp add: message_queue_init_def Queue_def queue_qsize_def)
  moreover have "drop (length ss - 50) ss = tl ss"
    using assms by (simp add: drop_Suc)
  ultimately show ?thesis by simp
qed

theorem inbox_51_keeps_2_to_51_witness:
  "length (''first'' # map (\<lambda>n. replicate n CHR ''m'') [2..<52]) = 51 \<and>
   deliver message_queue_init (map Payload (''first'' # map (\<lambda>n. replicate n CHR ''m'') [2..<52])) =
     Some (message_queue_init\<lparr>items := map (\<lambda>n. replicate n CHR ''m'') [2..<52]\<rparr>, None)"
proof -
  have l: "length (''first'' # map (\<lambda>n. replicate n CHR ''m'') [2..<52]) = 51"
    by (simp only: list.size length_map length_upt)
  from inbox_51_keeps_2_to_51 [OF l] l show ?thesis
    by (simp only: list.sel simp_thms)
qed

section \<open>Properties of the telemetry sampler\<close>

lemma mqtt_publisher_ok:
  "mqtt_publisher self 0 m topic =
     (self\<lparr>mqtt_client := mqtt_client self
              @ [Connect (broker_host self) (broker_port self) (broker_keepalive self),
                 Publish topic (json_dumps m) 1, Disconnect]\<rparr>, None)"
  by (simp add: mqtt_publisher_def)

lemma mqtt_publisher_refused:
  "rc \<noteq> 0 \<Longrightarrow> mqtt_publisher self rc m topic =
     (self\<lparr>mqtt_client := mqtt_client self
              @ [Connect (broker_host self) (broker_port self) (broker_keepalive self)]\<rparr>,
      Some (TypeError ''[drone_utils] Could not connect to the MQTT broker!''))"
  by (simp add: mqtt_publisher_def)

lemma onEventChanged_same_second:
  "strftime (now_curr e) = strftime (last_update self) \<Longrightarrow> onEventChanged self e = (self, None)"
  by (simp add: onEventChanged_def)

lemma onEventChanged_raises:
  "strftime (now_curr e) \<noteq> strftime (last_update self) \<Longrightarrow> event_messages e = Inl x
     \<Longrightarrow> onEventChanged self e = (self, Some x)"
  by (simp add: onEventChanged_def)

lemma onEventChanged_no_interval:
  "strftime (now_curr e) \<noteq> strftime (last_update self) \<Longrightarrow> event_messages e = Inr ms
     \<Longrightarrow> timedelta_seconds (Ts self) = Inl x
     \<Longrightarrow> onEventChanged self e = (self, Some x)"
  by (cases ms) (simp add: onEventChanged_def)

lemma onEventChanged_too_early:
  "strftime (now_curr e) \<noteq> strftime (last_update self) \<Longrightarrow> event_messages e = Inr ms
     \<Longrightarrow> timedelta_seconds (Ts self) = Inr sampling
     \<Longrightarrow> now_delta e - last_update self < sampling
     \<Longrightarrow> onEventChanged self e = (self, None)"
  by (cases ms) (simp add: onEventChanged_def)

lemma onEventChanged_gate_open:
  assumes "strftime (now_curr e) \<noteq> strftime (last_update self)"
      and "event_messages e = Inr (tm, cm)"
      and "timedelta_seconds (Ts self) = Inr sampling"
      and "sampling \<le> now_delta e - last_update self"
  shows "onEventChanged self e =
     (if connect_telemetry e \<noteq> 0 then
        (self\<lparr>mqtt_client := mqtt_client self
                 @ [Connect (broker_host self) (broker_port self) (broker_keepalive self)]\<rparr>,
         Some (TypeError ''[drone_utils] Could not connect to the MQTT broker!''))
      else if connect_camera e \<noteq> 0 then
        (self\<lparr>mqtt_client := mqtt_client self
                 @ [Connect (broker_host self) (broker_port self) (broker_keepalive self),
                    Publish (telemetry_topic self) (json_dumps tm) 1, Disconnect,
                    Connect (broker_host self) (broker_port self) (broker_keepalive self)]\<rparr>,
         Some (TypeError ''[drone_utils] Could not connect to the MQTT broker!''))
      else
        (self\<lparr>mqtt_client := mqtt_client self
                 @ [Connect (broker_host self) (broker_port self) (broker_keepalive self),
                    Publish (telemetry_topic self) (json_dumps tm) 1, Disconnect,
                    Connect (broker_host self) (broker_port self) (broker_keepalive self),
                    Publish (camera_topic self) (json_dumps cm) 1, Disconnect],
               last_update := now_last e\<rparr>, None))"
  using assms by (simp add: onEventChanged_def mqtt_publisher_def)

lemma uses_broker_gate:
  assumes "uses_broker self e"
  shows "strftime (now_curr e) \<noteq> strftime (last_update self)
         \<and> (\<exists>sampling. timedelta_seconds (Ts self) = Inr sampling
               \<and> sampling \<le> now_delta e - last_update self)
         \<and> (\<exists>ms. event_messages e = Inr ms)"
proof -
  have a: "strftime (now_curr e) \<noteq> strftime (last_update self)"
    using assms onEventChanged_same_second [of e self] by (auto simp: uses_broker_def)
  then obtain ms where ms: "event_messages e = Inr ms"
    using assms onEventChanged_raises [of e self]
    by (cases "event_messages e") (auto simp: uses_broker_def)
  obtain sampling where s: "timedelta_seconds (Ts self) = Inr sampling"
    using assms a ms onEventChanged_no_interval [of e self ms]
    by (cases "timedelta_seconds (Ts self)") (auto simp: uses_broker_def)
  have "sampling \<le> now_delta e - last_update self"
    using assms a ms s onEventChanged_too_early [of e self ms sampling]
    by (fastforce simp: uses_broker_def)
  with a ms s show ?thesis by blast
qed

lemma onEventChanged_cases:
  obtains (suppressed) "onEventChanged self e = (self, None)" "\<not> uses_broker self e"
  | (raised) x where "onEventChanged self e = (self, Some x)" "\<not> uses_broker self e"
  | (refused) as where "onEventChanged self e =
        (self\<lparr>mqtt_client := mqtt_client self @ as\<rparr>,
         Some (TypeError ''[drone_utils] Could not connect to the MQTT broker!''))"
      "as \<noteq> []" "uses_broker self e"
  | (published) tm cm where "event_messages e = Inr (tm, cm)"
      "onEventChanged self e =
        (self\<lparr>mqtt_client := mqtt_client self
                 @ [Connect (broker_host self) (broker_port self) (broker_keepalive self),
                    Publish (telemetry_topic self) (json_dumps tm) 1, Disconnect,
                    Connect (broker_host self) (broker_port self) (broker_keepalive self),
                    Publish (camera_topic self) (json_dumps cm) 1, Disconnect],
               last_update := now_last e\<rparr>, None)"
      "uses_broker self e"
proof (cases "strftime (now_curr e) = strftime (last_update self)")
  case True
  then have "onEventChanged self e = (self, None)" by (rule onEventChanged_same_second)
  then show ?thesis using suppressed by (simp add: uses_broker_def)
next
  case second: False
  show ?thesis
  proof (cases "event_messages e")
    case (Inl x)
    with second have "onEventChanged self e = (self, Some x)" by (rule onEventChanged_raises)
    then show ?thesis using raised by (simp add: uses_broker_def)
  next
    case (Inr ms)
    obtain tm cm where ms: "ms = (tm, cm)" by (cases ms)
    show ?thesis
    proof (cases "timedelta_seconds (Ts self)")
      case (Inl x)
      with second Inr have "onEventChanged self e = (self, Some x)"
        using onEventChanged_no_interval [of e self ms x] by simp
      then show ?thesis using raised by (simp add: uses_broker_def)
    next
      case sampling: (Inr sampling)
      show ?thesis
      proof (cases "sampling \<le> now_delta e - last_update self")
        case False
        with second Inr sampling have "onEventChanged self e = (self, None)"
          using onEventChanged_too_early [of e self ms sampling] by simp
        then show ?thesis using suppressed by (simp add: uses_broker_def)
      next
        case True
        note gate = onEventChanged_gate_open [OF second Inr [unfolded ms] sampling True]
        show ?thesis
        proof (cases "connect_telemetry e = 0 \<and> connect_camera e = 0")
          case True
          with gate show ?thesis
            using published [of tm cm] Inr ms by (simp add: uses_broker_def)
        next
          case False
          show ?thesis
          proof (cases "connect_telemetry e = 0")
            case True
            with False gate show ?thesis
              using refused [of "[Connect (broker_host self) (broker_port self) (broker_keepalive self),
                      Publish (telemetry_topic self) (json_dumps tm) 1, Disconnect,
                      Connect (broker_host self) (broker_port self) (broker_keepalive self)]"]
              by (simp add: uses_broker_def)
          next
            case False
            with gate show ?thesis
              using refused [of "[Connect (broker_host self) (broker_port self) (broker_keepalive self)]"]
              by (simp add: uses_broker_def)
          qed
        qed
      qed
    qed
  qed
qed

lemma onEventChanged_Ts [simp]: "Ts (fst (onEventChanged self e)) = Ts self"
  by (cases self e rule: onEventChanged_cases) simp_all



lemma run_events_append: "run_events self (es @ es') = run_events (run_events self es) es'"
  by (induction es arbitrary: self) simp_all

lemma state_before_0 [simp]: "state_before self es 0 = self"
  by (simp add: state_before_def)

lemma state_before_Suc:
  "i < length es \<Longrightarrow>
     state_before self es (Suc i) = fst (onEventChanged (state_before self es i) (es ! i))"
  by (simp add: state_before_def take_Suc_conv_app_nth run_events_append)

lemma state_before_Ts [simp]: "Ts (state_before self es i) = Ts self"
proof (induction i)
  case 0
  show ?case by simp
next
  case (Suc i)
  show ?case
  proof (cases "i < length es")
    case True
    with Suc show ?thesis by (simp add: state_before_Suc)
  next
    case False
    with Suc show ?thesis by (simp add: state_before_def)
  qed
qed




subsection \<open>The two messages\<close>

lemma map_of_update_items [simp]: "map_of (update_items kvs k v) k = Some v"
  by (induction kvs) auto

lemma filter_update_items [simp]:
  "filter (\<lambda>kv. fst kv \<noteq> k) (update_items kvs k v) = filter (\<lambda>kv. fst kv \<noteq> k) kvs"
  by (induction kvs) auto

lemma move_time_first:
  "move_to_end_first (dict_update (OrderedDict kvs) k v) k =
     Inr (OrderedDict ((k, v) # filter (\<lambda>kv. fst kv \<noteq> k) kvs))"
  by (simp add: dict_update_def)

lemma move_time_first_plain:
  "move_to_end_first (dict_update (Dict kvs) k v) k =
     Inl (AttributeError ''dict object has no attribute move_to_end'')"
  by (simp add: dict_update_def)

lemma event_messages_initialised:
  assumes "att_state e = Inr att_dict" "pos_state e = Inr pos_dict" "speed_state e = Inr speed_dict"
      and "camera_state e = Inr (OrderedDict kvs)" "map_of kvs ''active'' = Some active"
  shows "event_messages e =
     Inr (Dict [(''time'', Datetime (now_time e)),
                (''latitude'', Float (latitude pos_dict)),
                (''longitude'', Float (longitude pos_dict)),
                (''altitude'', Float (altitude pos_dict)),
                (''roll'', Np_round (roll att_dict) 4),
                (''pitch'', Np_round (pitch att_dict) 4),
                (''yaw'', Np_round (yaw att_dict) 4),
                (''speedX'', Np_round (speedX speed_dict) 4),
                (''speedY'', Np_round (speedY speed_dict) 4),
                (''speedZ'', Np_round (speedZ speed_dict) 4),
                (''camera_status'', active)],
          OrderedDict ((''time'', Datetime (now_time e)) # filter (\<lambda>kv. fst kv \<noteq> ''time'') kvs))"
  using assms by (simp add: event_messages_def getitem_def move_time_first)

lemma event_messages_uninitialised:
  assumes "att_state e = Inr att_dict" "pos_state e = Inr pos_dict" "speed_state e = Inr speed_dict"
      and "camera_state e = Inl x"
  shows "event_messages e = Inl (AttributeError ''dict object has no attribute move_to_end'')"
  using assms by (simp add: event_messages_def getitem_def move_time_first_plain)

lemma at_instant_simps [simp]:
  "now_curr (at_instant t e) = t" "now_time (at_instant t e) = t"
  "now_delta (at_instant t e) = t" "now_last (at_instant t e) = t"
  "att_state (at_instant t e) = att_state e" "pos_state (at_instant t e) = pos_state e"
  "speed_state (at_instant t e) = speed_state e" "camera_state (at_instant t e) = camera_state e"
  "connect_telemetry (at_instant t e) = connect_telemetry e"
  "connect_camera (at_instant t e) = connect_camera e"
  by (simp_all add: at_instant_def)

lemma timedelta_seconds_1: "timedelta_seconds (Finite 1 0) = Inr 1000000"
  by (simp add: timedelta_seconds_def modf_def nearest_double_def bit_length.simps [of 0]
      round_half_even_shift_def float_value_def rint_def)

lemma hover_register_fields [simp]:
  "last_update hover_register = 0" "Ts hover_register = Finite 1 0"
  "mqtt_client hover_register = []" "broker_host hover_register = ''localhost''"
  "broker_port hover_register = 1883" "broker_keepalive hover_register = 60"
  "telemetry_topic hover_register = ''telemetry''" "camera_topic hover_register = ''camera''"
  by (simp_all add: hover_register_def)

lemma hover_like_messages:
  assumes "att_state e = att_state hover_env" "pos_state e = pos_state hover_env"
      and "speed_state e = speed_state hover_env" "camera_state e = camera_state hover_env"
  shows "event_messages (at_instant t e) = Inr (hover_telemetry t, hover_camera t)"
  using event_messages_initialised [of "at_instant t e"
          "\<lparr>roll = 0, pitch = 0, yaw = 0\<rparr>"
          "\<lparr>latitude = 38.7223, longitude = - 9.1393, altitude = 2\<rparr>"
          "\<lparr>speedX = 0, speedY = 0, speedZ = 0\<rparr>"
          "[(''zoom'', Object ''zoom''), (''active'', Bool True)]" "Bool True"] assms
  by (simp add: hover_env_def hover_telemetry_def hover_camera_def)



lemma gate_closed_second:
  "strftime (now_curr e) = strftime (last_update self) \<Longrightarrow> \<not> uses_broker self e"
  using uses_broker_gate [of self e] by auto



subsection \<open>Runs with \<open>Ts = 1.0\<close>\<close>




lemma hover_env_accepts [simp]:
  "connect_telemetry hover_env = 0" "connect_camera hover_env = 0"
  by (simp_all add: hover_env_def)








section \<open>Properties of the publisher\<close>

text \<open>
  C10. Every publication opens a connection of its own, publishes with \<open>qos = 1\<close> and
  disconnects; when \<^verbatim>\<open>connect\<close> returns nonzero, \<^verbatim>\<open>mqtt_publisher\<close> raises \<^verbatim>\<open>TypeError\<close>
  after that one attempt, and the exception leaves \<^verbatim>\<open>onEventChanged\<close>: a call that
  reaches the broker ends in one of three ways, depending on what the two connection
  attempts of that call return.
\<close>

theorem publisher_connects_each_time:
  "mqtt_publisher self rc m topic =
     (if rc = 0 then
        (self\<lparr>mqtt_client := mqtt_client self
                 @ [Connect (broker_host self) (broker_port self) (broker_keepalive self),
                    Publish topic (json_dumps m) 1, Disconnect]\<rparr>, None)
      else
        (self\<lparr>mqtt_client := mqtt_client self
                 @ [Connect (broker_host self) (broker_port self) (broker_keepalive self)]\<rparr>,
         Some (TypeError ''[drone_utils] Could not connect to the MQTT broker!'')))
   \<and> (uses_broker self e \<longrightarrow>
        (\<exists>tm cm. event_messages e = Inr (tm, cm) \<and>
           onEventChanged self e =
             (if connect_telemetry e \<noteq> 0 then
                (self\<lparr>mqtt_client := mqtt_client self
                   @ [Connect (broker_host self) (broker_port self) (broker_keepalive self)]\<rparr>,
                 Some (TypeError ''[drone_utils] Could not connect to the MQTT broker!''))
              else if connect_camera e \<noteq> 0 then
                (self\<lparr>mqtt_client := mqtt_client self
                   @ [Connect (broker_host self) (broker_port self) (broker_keepalive self),
                      Publish (telemetry_topic self) (json_dumps tm) 1, Disconnect,
                      Connect (broker_host self) (broker_port self) (broker_keepalive self)]\<rparr>,
                 Some (TypeError ''[drone_utils] Could not connect to the MQTT broker!''))
              else
                (self\<lparr>mqtt_client := mqtt_client self
                   @ [Connect (broker_host self) (broker_port self) (broker_keepalive self),
                      Publish (telemetry_topic self) (json_dumps tm) 1, Disconnect,
                      Connect (broker_host self) (broker_port self) (broker_keepalive self),
                      Publish (camera_topic self) (json_dumps cm) 1, Disconnect],
                   last_update := now_last e\<rparr>, None))))"
proof (intro conjI impI)
  show "mqtt_publisher self rc m topic =
     (if rc = 0 then
        (self\<lparr>mqtt_client := mqtt_client self
                 @ [Connect (broker_host self) (broker_port self) (broker_keepalive self),
                    Publish topic (json_dumps m) 1, Disconnect]\<rparr>, None)
      else
        (self\<lparr>mqtt_client := mqtt_client self
                 @ [Connect (broker_host self) (broker_port self) (broker_keepalive self)]\<rparr>,
         Some (TypeError ''[drone_utils] Could not connect to the MQTT broker!'')))"
    by (simp add: mqtt_publisher_ok mqtt_publisher_refused)
next
  assume "uses_broker self e"
  from uses_broker_gate [OF this] obtain ms sampling
    where g: "strftime (now_curr e) \<noteq> strftime (last_update self)"
             "timedelta_seconds (Ts self) = Inr sampling"
             "sampling \<le> now_delta e - last_update self"
      and ms: "event_messages e = Inr ms"
    by blast
  obtain tm cm where tc: "ms = (tm, cm)" by (cases ms)
  from onEventChanged_gate_open [OF g(1) ms [unfolded tc] g(2) g(3)] ms tc
  show "\<exists>tm cm. event_messages e = Inr (tm, cm) \<and>
           onEventChanged self e =
             (if connect_telemetry e \<noteq> 0 then
                (self\<lparr>mqtt_client := mqtt_client self
                   @ [Connect (broker_host self) (broker_port self) (broker_keepalive self)]\<rparr>,
                 Some (TypeError ''[drone_utils] Could not connect to the MQTT broker!''))
              else if connect_camera e \<noteq> 0 then
                (self\<lparr>mqtt_client := mqtt_client self
                   @ [Connect (broker_host self) (broker_port self) (broker_keepalive self),
                      Publish (telemetry_topic self) (json_dumps tm) 1, Disconnect,
                      Connect (broker_host self) (broker_port self) (broker_keepalive self)]\<rparr>,
                 Some (TypeError ''[drone_utils] Could not connect to the MQTT broker!''))
              else
                (self\<lparr>mqtt_client := mqtt_client self
                   @ [Connect (broker_host self) (broker_port self) (broker_keepalive self),
                      Publish (telemetry_topic self) (json_dumps tm) 1, Disconnect,
                      Connect (broker_host self) (broker_port self) (broker_keepalive self),
                      Publish (camera_topic self) (json_dumps cm) 1, Disconnect],
                   last_update := now_last e\<rparr>, None))"
    by blast
qed

lemma refused_uses_broker: "uses_broker hover_register (at_instant 1200000 refused_env)"
proof -
  have ms: "event_messages (at_instant 1200000 refused_env)
              = Inr (hover_telemetry 1200000, hover_camera 1200000)"
    by (rule hover_like_messages) (simp_all add: refused_env_def)
  have second: "strftime (now_curr (at_instant 1200000 refused_env))
                  \<noteq> strftime (last_update hover_register)"
    by (simp add: strftime_def)
  have ts: "timedelta_seconds (Ts hover_register) = Inr 1000000"
    by (simp add: timedelta_seconds_1)
  have elapsed: "1000000 \<le> now_delta (at_instant 1200000 refused_env)
                   - last_update hover_register"
    by simp
  from onEventChanged_gate_open [OF second ms ts elapsed]
  show ?thesis
    by (simp add: uses_broker_def refused_env_def)
qed

theorem publisher_connects_each_time_witness:
  "uses_broker hover_register (at_instant 1200000 refused_env)
   \<and> onEventChanged hover_register (at_instant 1200000 refused_env) =
       (hover_register\<lparr>mqtt_client := [Connect ''localhost'' 1883 60]\<rparr>,
        Some (TypeError ''[drone_utils] Could not connect to the MQTT broker!''))"
proof -
  from publisher_connects_each_time [of hover_register 0 "Dict []" "''t''" "at_instant 1200000 refused_env",
         THEN conjunct2, THEN mp, OF refused_uses_broker]
  have "onEventChanged hover_register (at_instant 1200000 refused_env) =
       (hover_register\<lparr>mqtt_client := [Connect ''localhost'' 1883 60]\<rparr>,
        Some (TypeError ''[drone_utils] Could not connect to the MQTT broker!''))"
    by (auto simp: refused_env_def)
  with refused_uses_broker show ?thesis by (intro conjI)
qed

section \<open>The camera snapshot\<close>

text \<open>
  With an initialised camera (an \<^verbatim>\<open>OrderedDict\<close> holding the key \<^verbatim>\<open>active\<close>) and a broker
  that accepts both connections, a call whose gate is open publishes the telemetry
  message and then the camera state with \<^verbatim>\<open>time\<close> as its first entry; both carry the
  clock reading of line 77.
\<close>

lemma camera_snapshot_follows_telemetry:
  assumes "strftime (now_curr e) \<noteq> strftime (last_update self)"
      and "timedelta_seconds (Ts self) = Inr sampling"
      and "sampling \<le> now_delta e - last_update self"
      and "att_state e = Inr att_dict" "pos_state e = Inr pos_dict" "speed_state e = Inr speed_dict"
      and "camera_state e = Inr (OrderedDict kvs)" "map_of kvs ''active'' = Some active"
      and "connect_telemetry e = 0" "connect_camera e = 0"
  shows "\<exists>fields. mqtt_client (fst (onEventChanged self e)) = mqtt_client self
           @ [Connect (broker_host self) (broker_port self) (broker_keepalive self),
              Publish (telemetry_topic self) ((''time'', JIsoformat (now_time e)) # fields) 1,
              Disconnect,
              Connect (broker_host self) (broker_port self) (broker_keepalive self),
              Publish (camera_topic self)
                ((''time'', JIsoformat (now_time e))
                 # map (\<lambda>kv. (fst kv, json_value (snd kv))) (filter (\<lambda>kv. fst kv \<noteq> ''time'') kvs)) 1,
              Disconnect]"
proof -
  note ms = event_messages_initialised [OF assms(4-8)]
  from onEventChanged_gate_open [OF assms(1) ms assms(2,3)] assms(9,10)
  show ?thesis by (simp add: json_dumps_def)
qed

text \<open>
  C7, the camera not yet initialised: \<^verbatim>\<open>get_state\<close> raises, the \<^verbatim>\<open>except\<close> branch binds
  the plain dictionary \<^verbatim>\<open>{'zoom': '', 'active': False}\<close>, and \<^verbatim>\<open>move_to_end\<close> on it raises
  \<^verbatim>\<open>AttributeError\<close>: the call ends there and publishes nothing, although the sampling
  interval has elapsed.
\<close>

theorem camera_default_raises:
  "onEventChanged hover_register (at_instant 1200000 no_camera_env) =
     (hover_register, Some (AttributeError ''dict object has no attribute move_to_end''))"
proof -
  have "event_messages (at_instant 1200000 no_camera_env) =
          Inl (AttributeError ''dict object has no attribute move_to_end'')"
    by (rule event_messages_uninitialised) (simp_all add: no_camera_env_def hover_env_def)
  moreover have "strftime (now_curr (at_instant 1200000 no_camera_env))
                   \<noteq> strftime (last_update hover_register)"
    by (simp add: strftime_def)
  ultimately show ?thesis by (simp add: onEventChanged_raises)
qed

section \<open>The trace of events at 0.0, 0.5 and 1.2 seconds\<close>

lemma position_register_init_fields:
  assumes "position_register_init gps t host port ttopic ctopic ts = Inr self"
  shows "last_update self = t" "Ts self = ts" "mqtt_client self = []"
        "broker_host self = host" "broker_port self = port" "broker_keepalive self = 60"
        "telemetry_topic self = ttopic" "camera_topic self = ctopic"
  using assms by (auto simp: position_register_init_def split: sum.splits)

lemma both_published_fields [simp]:
  "both_published (self\<lparr>mqtt_client := as, last_update := t\<rparr>) tm cm = both_published self tm cm"
  by (simp add: both_published_def)





section \<open>The haversine distance\<close>

text \<open>
  C9. The distance from the stored initial position to itself is 0, and for every
  position \<^verbatim>\<open>haversine\<close> computes the haversine formula, with Earth radius 6371 km, of the
  two positions converted to radians, in metres.
\<close>

theorem haversine_zero_and_formula:
  "haversine self (init_lat self) (init_long self) = 0
   \<and> haversine self curr_lat curr_long =
       haversine_formula (deg2rad (init_lat self)) (deg2rad (init_long self))
         (deg2rad curr_lat) (deg2rad curr_long)"
  by (simp add: haversine_def haversine_formula_def Let_def)

end
